theory Spec2Isabelle
  imports Main "HOL-Library.Sublist"
begin

section \<open>Python values, exceptions and string helpers\<close>

text \<open>
  The two adapters of \<^verbatim>\<open>bench_executor\<close> (\<^verbatim>\<open>morphkgc.py\<close> and \<^verbatim>\<open>souffle.py\<close>) are
  embedded as pure functions over an explicit world: the files and directories the
  adapter writes, the lines it logs, and the commands it hands to the container.
  Every \<^verbatim>\<open>raise\<close> of the source is a value \<open>Inl e\<close> of the result. The operating
  system is taken to serve every request: making a directory and writing a file succeed.
\<close>

datatype py_error =
    NotImplementedError string
  | ValueError string
  | NameError string
  | TypeError string
  | NoSectionError string
  | TimeoutError

text \<open>
  The values that reach a name lookup or the container: a \<^verbatim>\<open>str\<close>, a list of
  \<^verbatim>\<open>str\<close>, or some other object (\<^verbatim>\<open>self\<close>, a module, a class).
\<close>

datatype pyval = PStr string | PStrList "string list" | PObject

definition seq :: "'e + 'a \<Rightarrow> ('a \<Rightarrow> 'e + 'b) \<Rightarrow> 'e + 'b" where
  "seq m f = (case m of Inl e \<Rightarrow> Inl e | Inr a \<Rightarrow> f a)"

text \<open>\<^verbatim>\<open>str(n)\<close> of a Python integer, as an f-string renders it.\<close>

definition digit_char :: "nat \<Rightarrow> char" where
  "digit_char d =
     (if d = 0 then CHR ''0'' else if d = 1 then CHR ''1'' else if d = 2 then CHR ''2''
      else if d = 3 then CHR ''3'' else if d = 4 then CHR ''4'' else if d = 5 then CHR ''5''
      else if d = 6 then CHR ''6'' else if d = 7 then CHR ''7'' else if d = 8 then CHR ''8''
      else CHR ''9'')"

fun str_nat :: "nat \<Rightarrow> string" where
  "str_nat n =
     (if n < 10 then [digit_char n] else str_nat (n div 10) @ [digit_char (n mod 10)])"

declare str_nat.simps [simp del]

definition str_int :: "int \<Rightarrow> string" where
  "str_int i = (if i < 0 then CHR ''-'' # str_nat (nat (- i)) else str_nat (nat i))"

text \<open>\<^verbatim>\<open>sep.join(xs)\<close>.\<close>

fun py_join :: "string \<Rightarrow> string list \<Rightarrow> string" where
  "py_join sep [] = []"
| "py_join sep [x] = x"
| "py_join sep (x # y # ys) = x @ sep @ py_join sep (y # ys)"

text \<open>
  \<^verbatim>\<open>" ".join(v)\<close> of an arbitrary value: a list of strings is joined, a string is joined
  character by character, anything else is a \<^verbatim>\<open>TypeError\<close>.
\<close>

definition py_join_val :: "string \<Rightarrow> pyval \<Rightarrow> py_error + string" where
  "py_join_val sep v =
     (case v of
        PStrList xs \<Rightarrow> Inr (py_join sep xs)
      | PStr s \<Rightarrow> Inr (py_join sep (map (\<lambda>c. [c]) s))
      | PObject \<Rightarrow> Inl (TypeError ''can only join an iterable''))"

text \<open>
  \<^verbatim>\<open>os.path.join(a, *p)\<close> on POSIX: a component that starts with \<^verbatim>\<open>/\<close> discards
  everything before it; otherwise it is appended, with a separator unless the path so
  far is empty or already ends in one.
\<close>

definition path_join2 :: "string \<Rightarrow> string \<Rightarrow> string" where
  "path_join2 path b =
     (if b \<noteq> [] \<and> hd b = CHR ''/'' then b
      else if path = [] \<or> last path = CHR ''/'' then path @ b
      else path @ ''/'' @ b)"

definition os_path_join :: "string \<Rightarrow> string list \<Rightarrow> string" where
  "os_path_join a p = foldl path_join2 a p"

text \<open>
  Name resolution inside a function body: the locals first, then the module's globals;
  a name bound in neither (and not a builtin) raises \<^verbatim>\<open>NameError\<close>.
\<close>

definition lookup_name ::
  "(string \<times> pyval) list \<Rightarrow> (string \<times> pyval) list \<Rightarrow> string \<Rightarrow> py_error + pyval" where
  "lookup_name locals globals name =
     (case map_of locals name of
        Some v \<Rightarrow> Inr v
      | None \<Rightarrow>
          (case map_of globals name of
             Some v \<Rightarrow> Inr v
           | None \<Rightarrow> Inl (NameError (''name '' @ [CHR 0x27] @ name @ [CHR 0x27] @ '' is not defined''))))"

section \<open>The world an adapter acts on\<close>

datatype log_level = Info | Warning

text \<open>
  What the container does with a command, seen through the \<^verbatim>\<open>@timeout(TIMEOUT)\<close>
  decorator: it exits within the ceiling, successfully or not
  (\<^verbatim>\<open>run_and_wait_for_exit\<close> returns that boolean), or it is still running when the
  ceiling is reached and the decorator raises \<^verbatim>\<open>TimeoutError\<close>.
\<close>

datatype run_outcome = Exited bool | Overrun

type_synonym runner = "pyval \<Rightarrow> run_outcome"

record world =
  umask :: nat
  dirs :: "string set"
  files :: "string \<rightharpoonup> string"
  log :: "(log_level \<times> string) list"
  started :: "pyval list"

definition logger :: "log_level \<Rightarrow> string \<Rightarrow> world \<Rightarrow> world" where
  "logger lvl msg w = w\<lparr>log := log w @ [(lvl, msg)]\<rparr>"

definition makedirs :: "string \<Rightarrow> world \<Rightarrow> world" where
  "makedirs d w = w\<lparr>dirs := insert d (dirs w)\<rparr>"

definition write_file :: "string \<Rightarrow> string \<Rightarrow> world \<Rightarrow> world" where
  "write_file path content w = w\<lparr>files := (files w)(path \<mapsto> content)\<rparr>"

text \<open>
  \<^verbatim>\<open>self.run_and_wait_for_exit(cmd)\<close> under the decorator: the command is handed to the
  container (recorded in \<open>started\<close>), and the call returns the exit status or raises
  \<^verbatim>\<open>TimeoutError\<close>.
\<close>

definition run_and_wait_for_exit ::
  "runner \<Rightarrow> pyval \<Rightarrow> world \<Rightarrow> (py_error + bool) \<times> world" where
  "run_and_wait_for_exit run cmd w =
     (case run cmd of
        Exited success \<Rightarrow> (Inr success, w\<lparr>started := started w @ [cmd]\<rparr>)
      | Overrun \<Rightarrow> (Inl TimeoutError, w\<lparr>started := started w @ [cmd]\<rparr>))"

section \<open>The database descriptor\<close>

record rdb =
  rdb_username :: "string option"
  rdb_password :: "string option"
  rdb_host :: "string option"
  rdb_port :: "int option"
  rdb_name :: "string option"
  rdb_type :: "string option"

definition no_rdb :: rdb where
  "no_rdb = \<lparr>rdb_username = None, rdb_password = None, rdb_host = None,
             rdb_port = None, rdb_name = None, rdb_type = None\<rparr>"

text \<open>The guard both adapters use: all six fields are not \<^verbatim>\<open>None\<close>.\<close>

definition rdb_complete :: "rdb \<Rightarrow> bool" where
  "rdb_complete db \<longleftrightarrow>
     rdb_username db \<noteq> None \<and> rdb_password db \<noteq> None \<and> rdb_host db \<noteq> None \<and>
     rdb_port db \<noteq> None \<and> rdb_name db \<noteq> None \<and> rdb_type db \<noteq> None"

text \<open>A partial descriptor: some field is given, but not all six.\<close>

definition rdb_partial :: "rdb \<Rightarrow> bool" where
  "rdb_partial db \<longleftrightarrow>
     \<not> rdb_complete db \<and>
     (rdb_username db \<noteq> None \<or> rdb_password db \<noteq> None \<or> rdb_host db \<noteq> None \<or>
      rdb_port db \<noteq> None \<or> rdb_name db \<noteq> None \<or> rdb_type db \<noteq> None)"

section \<open>The part of \<^verbatim>\<open>configparser\<close> the adapter uses\<close>

text \<open>
  A \<^verbatim>\<open>ConfigParser\<close> holds an ordered dictionary of sections, each an ordered
  dictionary of options. Assigning to a key that exists keeps its position.
\<close>

type_synonym py_dict = "(string \<times> string) list"

type_synonym config = "(string \<times> py_dict) list"

fun dict_set :: "string \<Rightarrow> 'v \<Rightarrow> (string \<times> 'v) list \<Rightarrow> (string \<times> 'v) list" where
  "dict_set k v [] = [(k, v)]"
| "dict_set k v ((k', v') # kvs) =
     (if k' = k then (k, v) # kvs else (k', v') # dict_set k v kvs)"

text \<open>
  \<^verbatim>\<open>BasicInterpolation.before_set\<close>, the default of \<^verbatim>\<open>ConfigParser()\<close>: after
  removing every \<^verbatim>\<open>%%\<close> and then every match of \<^verbatim>\<open>%\(([^)]+)\)s\<close>, a value that still
  holds a \<^verbatim>\<open>%\<close> is refused with \<^verbatim>\<open>ValueError\<close>. The message of the library also quotes the
  value and a position; the model keeps its fixed part.
\<close>

fun strip_pp :: "string \<Rightarrow> string" where
  "strip_pp (c # d # cs) =
     (if c = CHR ''%'' \<and> d = CHR ''%'' then strip_pp cs else c # strip_pp (d # cs))"
| "strip_pp cs = cs"

text \<open>
  A match of the pattern at the head of the string: \<^verbatim>\<open>%(\<close>, one or more characters
  other than \<^verbatim>\<open>)\<close>, then \<^verbatim>\<open>)s\<close>. The result is what follows the match.
\<close>

definition key_match :: "string \<Rightarrow> string option" where
  "key_match s =
     (case s of
        c1 # c2 # t \<Rightarrow>
          if c1 = CHR ''%'' \<and> c2 = CHR ''('' then
            (let name = takeWhile (\<lambda>c. c \<noteq> CHR '')'') t;
                 r = dropWhile (\<lambda>c. c \<noteq> CHR '')'') t
             in case r of
                  p # q # rest \<Rightarrow> if name \<noteq> [] \<and> q = CHR ''s'' then Some rest else None
                | _ \<Rightarrow> None)
          else None
      | _ \<Rightarrow> None)"

lemma key_match_shorter: "key_match s = Some rest \<Longrightarrow> length rest < length s"
proof -
  assume a: "key_match s = Some rest"
  then obtain c1 c2 t where s: "s = c1 # c2 # t"
    by (auto simp: key_match_def split: list.splits)
  from a s obtain p q where r: "dropWhile (\<lambda>c. c \<noteq> CHR '')'') t = p # q # rest"
    by (auto simp: key_match_def Let_def split: list.splits if_splits)
  have "length (dropWhile (\<lambda>c. c \<noteq> CHR '')'') t) \<le> length t"
    by (rule length_dropWhile_le)
  with r s show ?thesis by simp
qed

function strip_keys :: "string \<Rightarrow> string" where
  "strip_keys [] = []"
| "strip_keys (c # cs) =
     (case key_match (c # cs) of
        Some rest \<Rightarrow> strip_keys rest
      | None \<Rightarrow> c # strip_keys cs)"
  by pat_completeness auto
termination
  by (relation "measure length") (auto dest: key_match_shorter)

declare strip_keys.simps [simp del]

definition before_set :: "string \<Rightarrow> py_error + string" where
  "before_set value =
     (if CHR ''%'' \<in> set (strip_keys (strip_pp value))
      then Inl (ValueError ''invalid interpolation syntax'')
      else Inr value)"

text \<open>
  \<^verbatim>\<open>ConfigParser.set(section, option, value)\<close>: a non-empty value passes
  \<^verbatim>\<open>before_set\<close>; the section must exist. The section and option names the adapter
  uses are fixed lower-case constants, so \<^verbatim>\<open>optionxform\<close> leaves them as they are.
\<close>

definition config_set :: "config \<Rightarrow> string \<Rightarrow> string \<Rightarrow> string \<Rightarrow> py_error + config" where
  "config_set config section option value =
     seq (if value \<noteq> [] then before_set value else Inr value)
       (\<lambda>v. case map_of config section of
               None \<Rightarrow> Inl (NoSectionError section)
             | Some sectdict \<Rightarrow> Inr (dict_set section (dict_set option v sectdict) config))"

text \<open>
  \<^verbatim>\<open>config[key] = {...}\<close>: the section is created, or emptied where it exists, and
  each item of the dictionary is set in order (\<^verbatim>\<open>read_dict\<close>).
\<close>

fun read_dict :: "config \<Rightarrow> string \<Rightarrow> py_dict \<Rightarrow> py_error + config" where
  "read_dict config section [] = Inr config"
| "read_dict config section ((k, v) # kvs) =
     seq (config_set config section k v) (\<lambda>c. read_dict c section kvs)"

definition config_setitem :: "config \<Rightarrow> string \<Rightarrow> py_dict \<Rightarrow> py_error + config" where
  "config_setitem config key val = read_dict (dict_set key [] config) key val"

definition config_get :: "config \<Rightarrow> string \<Rightarrow> string \<Rightarrow> string option" where
  "config_get config section option =
     (case map_of config section of None \<Rightarrow> None | Some sectdict \<Rightarrow> map_of sectdict option)"

text \<open>
  \<^verbatim>\<open>config.write(f)\<close>: per section a header line, one \<^verbatim>\<open>key = value\<close> line per option
  (a newline inside a value is continued with a tab), and an empty line.
\<close>

definition replace_newline :: "string \<Rightarrow> string" where
  "replace_newline v =
     concat (map (\<lambda>c. if c = CHR 0x0A then [CHR 0x0A, CHR 0x09] else [c]) v)"

definition write_section :: "string \<times> py_dict \<Rightarrow> string" where
  "write_section sec =
     ''['' @ fst sec @ '']'' @ [CHR 0x0A] @
     concat (map (\<lambda>kv. fst kv @ '' = '' @ replace_newline (snd kv) @ [CHR 0x0A]) (snd sec)) @
     [CHR 0x0A]"

definition config_write :: "config \<Rightarrow> string" where
  "config_write config = concat (map write_section config)"

section \<open>The Morph-KGC adapter (\<^verbatim>\<open>morphkgc.py\<close>)\<close>

definition morphkgc_TIMEOUT :: nat where
  "morphkgc_TIMEOUT = 6 * 3600"

record adapter =
  data_path :: string

text \<open>\<^verbatim>\<open>MorphKGC._execute_with_timeout\<close>: the arguments are not used.\<close>

definition morphkgc_execute_with_timeout ::
  "runner \<Rightarrow> string list \<Rightarrow> world \<Rightarrow> (py_error + bool) \<times> world" where
  "morphkgc_execute_with_timeout run arguments w =
     (let cmd = ''python3 -m morph_kgc /data/config_morphkgc.ini''
      in run_and_wait_for_exit run (PStr cmd) w)"

text \<open>
  \<^verbatim>\<open>MorphKGC.execute\<close>: \<^verbatim>\<open>TimeoutError\<close> is caught, a warning is logged and the
  result is \<^verbatim>\<open>False\<close>; any other exception passes through.
\<close>

definition morphkgc_execute ::
  "runner \<Rightarrow> string list \<Rightarrow> world \<Rightarrow> (py_error + bool) \<times> world" where
  "morphkgc_execute run arguments w =
     (case morphkgc_execute_with_timeout run arguments w of
        (Inr success, w1) \<Rightarrow> (Inr success, w1)
      | (Inl e, w1) \<Rightarrow>
          if e = TimeoutError then
            (let msg = ''Timeout ('' @ str_nat morphkgc_TIMEOUT @ ''s) reached for Morph-KGC''
             in (Inr False, logger Warning msg w1))
          else (Inl e, w1))"

text \<open>Lines 157 to 163 of \<^verbatim>\<open>execute_mapping\<close>: the serialization keyword.\<close>

definition morphkgc_serialization :: "string \<Rightarrow> py_error + string" where
  "morphkgc_serialization serialization =
     (if serialization = ''nquads'' then Inr ''N-QUADS''
      else if serialization = ''ntriples'' then Inr ''N-TRIPLES''
      else Inl (NotImplementedError
                  (''Unsupported serialization:'' @ [CHR 0x22] @ serialization @ [CHR 0x22])))"

text \<open>Lines 185 to 192: the connection string of a complete descriptor.\<close>

definition morphkgc_rdb_dsn ::
  "string \<Rightarrow> string \<Rightarrow> string \<Rightarrow> int \<Rightarrow> string \<Rightarrow> string \<Rightarrow> py_error + string" where
  "morphkgc_rdb_dsn username password host port name type =
     seq (if type = ''MySQL'' then Inr ''mysql+pymysql''
          else if type = ''PostgreSQL'' then Inr ''postgresql+psycopg2''
          else Inl (ValueError (''Unknown RDB type: '' @ [CHR 0x22] @ type @ [CHR 0x22])))
       (\<lambda>protocol. Inr (protocol @ ''://'' @ username @ '':'' @ password @
                         ''@'' @ host @ '':'' @ str_int port @ ''/'' @ name))"

text \<open>
  Lines 157 to 193: the configuration object that \<^verbatim>\<open>execute_mapping\<close> builds before
  it touches the file system.
\<close>

definition morphkgc_config ::
  "string \<Rightarrow> string \<Rightarrow> string \<Rightarrow> rdb \<Rightarrow> bool \<Rightarrow> py_error + config" where
  "morphkgc_config mapping_file output_file serialization db multiple_files =
     seq (morphkgc_serialization serialization) (\<lambda>ser.
     seq (config_setitem [] ''CONFIGURATION'' [(''output_format'', ser)]) (\<lambda>c1.
     seq (config_setitem c1 ''DataSource0'' [(''mappings'', ''/data/shared/'' @ mapping_file)]) (\<lambda>c2.
     seq (if multiple_files
          then config_set c2 ''CONFIGURATION'' ''output_dir'' ''/data/shared/''
          else config_set c2 ''CONFIGURATION'' ''output_file'' (''/data/shared/'' @ output_file)) (\<lambda>c3.
     if rdb_complete db then
       seq (morphkgc_rdb_dsn (the (rdb_username db)) (the (rdb_password db)) (the (rdb_host db))
              (the (rdb_port db)) (the (rdb_name db)) (the (rdb_type db))) (\<lambda>rdb_dsn.
       config_set c3 ''DataSource0'' ''db_url'' rdb_dsn)
     else Inr c3))))"

definition morphkgc_config_path :: "adapter \<Rightarrow> string" where
  "morphkgc_config_path ad = os_path_join (data_path ad) [''morphkgc'', ''config_morphkgc.ini'']"

text \<open>
  \<^verbatim>\<open>MorphKGC.execute_mapping\<close>: an exception while the configuration is built leaves
  the world as it was; otherwise the umask is cleared, the directory is made, the file is
  written and \<^verbatim>\<open>execute([])\<close> gives the result.
\<close>

definition morphkgc_execute_mapping ::
  "adapter \<Rightarrow> runner \<Rightarrow> world \<Rightarrow> string \<Rightarrow> string \<Rightarrow> string \<Rightarrow> rdb \<Rightarrow> bool \<Rightarrow>
   (py_error + bool) \<times> world" where
  "morphkgc_execute_mapping ad run w mapping_file output_file serialization db multiple_files =
     (case morphkgc_config mapping_file output_file serialization db multiple_files of
        Inl e \<Rightarrow> (Inl e, w)
      | Inr config \<Rightarrow>
          (let w1 = w\<lparr>umask := 0\<rparr>;
               w2 = makedirs (os_path_join (data_path ad) [''morphkgc'']) w1;
               path = morphkgc_config_path ad;
               w3 = write_file path (config_write config) w2
           in morphkgc_execute run [] w3))"

section \<open>The Souffle adapter (\<^verbatim>\<open>souffle.py\<close>)\<close>

definition souffle_TIMEOUT :: nat where
  "souffle_TIMEOUT = 3 * 3600"

text \<open>The names bound at module level in \<^verbatim>\<open>souffle.py\<close>.\<close>

definition souffle_globals :: "(string \<times> pyval) list" where
  "souffle_globals =
     [(''os'', PObject), (''psutil'', PObject), (''Optional'', PObject),
      (''timeout'', PObject), (''TimeoutError'', PObject), (''Container'', PObject),
      (''Logger'', PObject), (''VERSION'', PStr ''1.0.0''), (''TIMEOUT'', PObject),
      (''Souffle'', PObject)]"

text \<open>
  \<^verbatim>\<open>Souffle._execute_with_timeout(self, cmd1)\<close>: the argument of the \<^verbatim>\<open>info\<close> call is
  evaluated first and reads the name \<^verbatim>\<open>arguments\<close>; only then is the line logged and
  the command run.
\<close>

definition souffle_execute_with_timeout ::
  "runner \<Rightarrow> pyval \<Rightarrow> world \<Rightarrow> (py_error + bool) \<times> world" where
  "souffle_execute_with_timeout run cmd1 w =
     (case lookup_name [(''self'', PObject), (''cmd1'', cmd1)] souffle_globals ''arguments'' of
        Inl e \<Rightarrow> (Inl e, w)
      | Inr arguments \<Rightarrow>
          (case py_join_val '' '' arguments of
             Inl e \<Rightarrow> (Inl e, w)
           | Inr joined \<Rightarrow>
               (let w1 = logger Info (''Executing Souffle with arguments '' @ joined) w
                in run_and_wait_for_exit run cmd1 w1)))"

text \<open>\<^verbatim>\<open>Souffle.execute\<close>: the handler of \<^verbatim>\<open>TimeoutError\<close>, as in the other adapter.\<close>

definition souffle_execute ::
  "runner \<Rightarrow> string list \<Rightarrow> world \<Rightarrow> (py_error + bool) \<times> world" where
  "souffle_execute run arguments w =
     (case souffle_execute_with_timeout run (PStrList arguments) w of
        (Inr success, w1) \<Rightarrow> (Inr success, w1)
      | (Inl e, w1) \<Rightarrow>
          if e = TimeoutError then
            (let msg = ''Timeout ('' @ str_nat souffle_TIMEOUT @ ''s) reached for Souffle''
             in (Inr False, logger Warning msg w1))
          else (Inl e, w1))"

text \<open>
  \<^verbatim>\<open>int(psutil.virtual_memory().total * (1/2))\<close>, with the host's total memory in bytes
  as a parameter. The product is a float; it is exact, and the result is the integer
  half, for every total below \<open>2 ^ 53\<close>.
\<close>

definition max_heap :: "nat \<Rightarrow> nat" where
  "max_heap mem_total = mem_total div 2"

text \<open>Lines 136 to 145: the JDBC connection string, in single quotes.\<close>

definition souffle_rdb_dsn :: "string \<Rightarrow> int \<Rightarrow> string \<Rightarrow> string \<Rightarrow> py_error + string" where
  "souffle_rdb_dsn host port name type =
     seq (if type = ''MySQL''
          then Inr (''jdbc:mysql'', ''?allowPublicKeyRetrieval=true&useSSL=false'')
          else if type = ''PostgreSQL'' then Inr (''jdbc:postgresql'', [])
          else Inl (ValueError (''Unknown RDB type: '' @ [CHR 0x22] @ type @ [CHR 0x22])))
       (\<lambda>(protocol, parameters).
          Inr ([CHR 0x27] @ protocol @ ''://'' @ host @ '':'' @ str_int port @ ''/'' @
               name @ parameters @ [CHR 0x27]))"

text \<open>Lines 126 to 147: the argument list after the mapping file.\<close>

definition souffle_arguments1 :: "rdb \<Rightarrow> py_error + string list" where
  "souffle_arguments1 db =
     (if rdb_complete db then
        seq (souffle_rdb_dsn (the (rdb_host db)) (the (rdb_port db)) (the (rdb_name db))
               (the (rdb_type db))) (\<lambda>rdb_dsn.
        Inr ([[]] @ [''-u '', the (rdb_username db), ''-p '', the (rdb_password db)] @
             [''-dsn '', rdb_dsn]))
      else Inr [[]])"

text \<open>Lines 123 to 150: the command line \<^verbatim>\<open>cmd1\<close>.\<close>

definition souffle_cmd1 :: "nat \<Rightarrow> string \<Rightarrow> rdb \<Rightarrow> py_error + string" where
  "souffle_cmd1 mem_total mapping_file db =
     seq (souffle_arguments1 db) (\<lambda>arguments1.
     Inr (''java -Xmx'' @ str_nat (max_heap mem_total) @ '' -Xms'' @ str_nat (max_heap mem_total) @
          '' -jar rulegen.jar -m '' @ os_path_join ''/data/shared/'' [mapping_file] @
          py_join '' '' arguments1))"

text \<open>
  \<^verbatim>\<open>Souffle.execute_mapping\<close>: neither the output file nor the serialization keyword is
  read. The list \<^verbatim>\<open>arguments\<close> of line 152 is a local of this function and is not
  visible in \<^verbatim>\<open>_execute_with_timeout\<close>, which is called directly.
\<close>

definition souffle_execute_mapping ::
  "nat \<Rightarrow> runner \<Rightarrow> world \<Rightarrow> string \<Rightarrow> string \<Rightarrow> string \<Rightarrow> rdb \<Rightarrow> (py_error + bool) \<times> world" where
  "souffle_execute_mapping mem_total run w mapping_file output_file serialization db =
     (case souffle_cmd1 mem_total mapping_file db of
        Inl e \<Rightarrow> (Inl e, w)
      | Inr cmd1 \<Rightarrow> souffle_execute_with_timeout run (PStr cmd1) w)"

section \<open>Reading the configuration file back\<close>

text \<open>
  How a reader of the written file (\<^verbatim>\<open>configparser\<close> over a text file) takes it
  apart: a line ends at a line feed or at a carriage return; a line that starts in the
  first column and is neither a section header nor a comment sets an option; a line that
  starts with a blank continues the value before it.
\<close>

definition line_break :: "char \<Rightarrow> bool" where
  "line_break c \<longleftrightarrow> c = CHR 0x0A \<or> c = CHR 0x0D"

fun split_lines :: "string \<Rightarrow> string list" where
  "split_lines [] = [[]]"
| "split_lines (c # cs) =
     (if line_break c then [] # split_lines cs
      else (case split_lines cs of [] \<Rightarrow> [[c]] | l # ls \<Rightarrow> (c # l) # ls))"

definition is_option_line :: "string \<Rightarrow> bool" where
  "is_option_line l =
     (case l of
        [] \<Rightarrow> False
      | c # _ \<Rightarrow> c \<noteq> CHR '' '' \<and> c \<noteq> CHR 0x09 \<and> c \<noteq> CHR ''['' \<and> c \<noteq> CHR ''#'' \<and> c \<noteq> CHR '';'')"

definition option_lines :: "string \<Rightarrow> string list" where
  "option_lines text = filter is_option_line (split_lines text)"

declare split_lines.simps(2) [simp del]

text \<open>
  Items whose keys are fit to start an option line and whose values hold no carriage
  return.
\<close>

fun good_items :: "py_dict \<Rightarrow> bool" where
  "good_items [] = True"
| "good_items ((k, v) # kvs) =
     (\<not> list_ex line_break k \<and> is_option_line k \<and> CHR 0x0D \<notin> set v \<and> good_items kvs)"

section \<open>Concrete inputs\<close>

text \<open>
  A world before any call (umask \<^verbatim>\<open>0o022\<close>, nothing written, logged or started), an
  adapter, two complete database descriptors, one of a supported and one of an
  unsupported type, and a partial descriptor that gives the user name only.
\<close>

definition world0 :: world where
  "world0 = \<lparr>umask = 18, dirs = {}, files = Map.empty, log = [], started = []\<rparr>"

definition adapter0 :: adapter where
  "adapter0 = \<lparr>data_path = ''/case''\<rparr>"

definition rdb_mysql :: rdb where
  "rdb_mysql = \<lparr>rdb_username = Some ''u'', rdb_password = Some ''p'', rdb_host = Some ''h'',
                 rdb_port = Some 3306, rdb_name = Some ''db'', rdb_type = Some ''MySQL''\<rparr>"

definition rdb_oracle :: rdb where
  "rdb_oracle = \<lparr>rdb_username = Some ''u'', rdb_password = Some ''p'', rdb_host = Some ''h'',
                  rdb_port = Some 1521, rdb_name = Some ''db'', rdb_type = Some ''Oracle''\<rparr>"

definition rdb_user_only :: rdb where
  "rdb_user_only = no_rdb\<lparr>rdb_username := Some ''u''\<rparr>"

text \<open>An output file name with a carriage return in it.\<close>

definition output_cr :: string where
  "output_cr = ''x'' @ [CHR 0x0D] @ ''output_dir = /tmp''"

text \<open>The fixed entry command of the Morph-KGC container (line 71), as the runner sees it.\<close>

definition morphkgc_cmd :: pyval where
  "morphkgc_cmd = PStr ''python3 -m morph_kgc /data/config_morphkgc.ini''"

section \<open>Basic facts about the embedding\<close>

lemma seq_Inr [simp]: "seq (Inr a) f = f a" by (simp add: seq_def)
lemma seq_Inl [simp]: "seq (Inl e) f = Inl e" by (simp add: seq_def)

lemma seq_eq_Inr: "seq m f = Inr b \<longleftrightarrow> (\<exists>a. m = Inr a \<and> f a = Inr b)"
  by (cases m) simp_all

lemma before_set_fixed:
  "before_set ''N-QUADS'' = Inr ''N-QUADS''"
  "before_set ''N-TRIPLES'' = Inr ''N-TRIPLES''"
  "before_set ''/data/shared/'' = Inr ''/data/shared/''"
  by (simp_all add: before_set_def strip_keys.simps key_match_def)

lemma before_set_Inr: "before_set v = Inr v' \<Longrightarrow> v' = v"
  by (simp add: before_set_def split: if_splits)

lemma config_set_Inr:
  "config_set c s k v = Inr c' \<Longrightarrow>
   \<exists>d. map_of c s = Some d \<and> c' = dict_set s (dict_set k v d) c"
  by (auto simp: config_set_def seq_eq_Inr dest: before_set_Inr split: if_splits option.splits)

lemma morphkgc_serialization_Inr:
  "morphkgc_serialization s = Inr ser \<Longrightarrow>
   (s = ''nquads'' \<and> ser = ''N-QUADS'') \<or> (s = ''ntriples'' \<and> ser = ''N-TRIPLES'')"
  by (auto simp: morphkgc_serialization_def split: if_splits)

lemma morphkgc_config_Inr:
  assumes "morphkgc_config m out s db mf = Inr cfg"
  shows "\<exists>ser. morphkgc_serialization s = Inr ser \<and>
    cfg = [(''CONFIGURATION'',
             [(''output_format'', ser),
              if mf then (''output_dir'', ''/data/shared/'')
              else (''output_file'', ''/data/shared/'' @ out)]),
           (''DataSource0'',
             (''mappings'', ''/data/shared/'' @ m) #
             (if rdb_complete db then
                (case morphkgc_rdb_dsn (the (rdb_username db)) (the (rdb_password db))
                        (the (rdb_host db)) (the (rdb_port db)) (the (rdb_name db))
                        (the (rdb_type db)) of
                   Inr dsn \<Rightarrow> [(''db_url'', dsn)] | Inl e \<Rightarrow> [])
              else []))]"
proof -
  from assms obtain ser c1 c2 c3 where
    ser: "morphkgc_serialization s = Inr ser" and
    c1: "config_setitem [] ''CONFIGURATION'' [(''output_format'', ser)] = Inr c1" and
    c2: "config_setitem c1 ''DataSource0'' [(''mappings'', ''/data/shared/'' @ m)] = Inr c2" and
    c3: "(if mf then config_set c2 ''CONFIGURATION'' ''output_dir'' ''/data/shared/''
          else config_set c2 ''CONFIGURATION'' ''output_file'' (''/data/shared/'' @ out)) = Inr c3" and
    c4: "(if rdb_complete db then
            seq (morphkgc_rdb_dsn (the (rdb_username db)) (the (rdb_password db))
                   (the (rdb_host db)) (the (rdb_port db)) (the (rdb_name db))
                   (the (rdb_type db)))
              (\<lambda>rdb_dsn. config_set c3 ''DataSource0'' ''db_url'' rdb_dsn)
          else Inr c3) = Inr cfg"
    unfolding morphkgc_config_def seq_eq_Inr by blast
  from c1 have c1': "c1 = [(''CONFIGURATION'', [(''output_format'', ser)])]"
    by (auto simp: config_setitem_def seq_eq_Inr dest!: config_set_Inr)
  from c2 have c2': "c2 = [(''CONFIGURATION'', [(''output_format'', ser)]),
                           (''DataSource0'', [(''mappings'', ''/data/shared/'' @ m)])]"
    unfolding c1' by (auto simp: config_setitem_def seq_eq_Inr dest!: config_set_Inr)
  from c3 have c3': "c3 = [(''CONFIGURATION'',
             [(''output_format'', ser),
              if mf then (''output_dir'', ''/data/shared/'')
              else (''output_file'', ''/data/shared/'' @ out)]),
           (''DataSource0'', [(''mappings'', ''/data/shared/'' @ m)])]"
    unfolding c2' by (auto dest!: config_set_Inr split: if_splits)
  from c4 have "cfg = [(''CONFIGURATION'',
             [(''output_format'', ser),
              if mf then (''output_dir'', ''/data/shared/'')
              else (''output_file'', ''/data/shared/'' @ out)]),
           (''DataSource0'',
             (''mappings'', ''/data/shared/'' @ m) #
             (if rdb_complete db then
                (case morphkgc_rdb_dsn (the (rdb_username db)) (the (rdb_password db))
                        (the (rdb_host db)) (the (rdb_port db)) (the (rdb_name db))
                        (the (rdb_type db)) of
                   Inr dsn \<Rightarrow> [(''db_url'', dsn)] | Inl e \<Rightarrow> [])
              else []))]"
    unfolding c3' by (auto simp: seq_eq_Inr dest!: config_set_Inr split: if_splits)
  with ser show ?thesis by blast
qed

lemma str_nat_morphkgc_TIMEOUT: "str_nat morphkgc_TIMEOUT = ''21600''"
  by (simp add: morphkgc_TIMEOUT_def str_nat.simps digit_char_def)

lemma str_nat_souffle_TIMEOUT: "str_nat souffle_TIMEOUT = ''10800''"
  by (simp add: souffle_TIMEOUT_def str_nat.simps digit_char_def)

lemma morphkgc_execute_Exited:
  "run morphkgc_cmd = Exited b \<Longrightarrow>
   morphkgc_execute run args w = (Inr b, w\<lparr>started := started w @ [morphkgc_cmd]\<rparr>)"
  by (simp add: morphkgc_execute_def morphkgc_execute_with_timeout_def
      run_and_wait_for_exit_def morphkgc_cmd_def)

lemma morphkgc_execute_Overrun:
  "run morphkgc_cmd = Overrun \<Longrightarrow>
   morphkgc_execute run args w =
     (Inr False, w\<lparr>log := log w @ [(Warning, ''Timeout (21600s) reached for Morph-KGC'')],
                   started := started w @ [morphkgc_cmd]\<rparr>)"
  by (simp add: morphkgc_execute_def morphkgc_execute_with_timeout_def
      run_and_wait_for_exit_def morphkgc_cmd_def logger_def str_nat_morphkgc_TIMEOUT)

lemma morphkgc_execute_mapping_Inl:
  "morphkgc_config m out s db mf = Inl e \<Longrightarrow>
   morphkgc_execute_mapping ad run w m out s db mf = (Inl e, w)"
  by (simp add: morphkgc_execute_mapping_def)

lemma morphkgc_execute_mapping_Inr:
  "morphkgc_config m out s db mf = Inr config \<Longrightarrow>
   morphkgc_execute_mapping ad run w m out s db mf =
     morphkgc_execute run []
       (w\<lparr>umask := 0, dirs := insert (os_path_join (data_path ad) [''morphkgc'']) (dirs w),
          files := (files w)(morphkgc_config_path ad \<mapsto> config_write config)\<rparr>)"
  by (simp add: morphkgc_execute_mapping_def makedirs_def write_file_def)

lemma morphkgc_execute_files: "files (snd (morphkgc_execute run args w)) = files w"
  by (cases "run morphkgc_cmd") (simp_all add: morphkgc_execute_Exited morphkgc_execute_Overrun)

lemma morphkgc_execute_started:
  "started (snd (morphkgc_execute run args w)) = started w @ [morphkgc_cmd]"
  by (cases "run morphkgc_cmd") (simp_all add: morphkgc_execute_Exited morphkgc_execute_Overrun)

lemma morphkgc_execute_result:
  "fst (morphkgc_execute run args w) = Inr (run morphkgc_cmd = Exited True)"
  by (cases "run morphkgc_cmd") (auto simp add: morphkgc_execute_Exited morphkgc_execute_Overrun)

lemma souffle_execute_with_timeout_NameError:
  "souffle_execute_with_timeout run cmd1 w =
     (Inl (NameError (''name '' @ [CHR 0x27] @ ''arguments'' @ [CHR 0x27] @ '' is not defined'')), w)"
  by (simp add: souffle_execute_with_timeout_def lookup_name_def souffle_globals_def)

lemma souffle_execute_mapping_Inr:
  "souffle_cmd1 mt m db = Inr cmd1 \<Longrightarrow>
   souffle_execute_mapping mt run w m out s db =
     (Inl (NameError (''name '' @ [CHR 0x27] @ ''arguments'' @ [CHR 0x27] @ '' is not defined'')), w)"
  by (simp add: souffle_execute_mapping_def souffle_execute_with_timeout_NameError)

text \<open>The command line of the Souffle adapter in closed form.\<close>

lemma souffle_cmd1_cases:
  "souffle_cmd1 mt m db =
     (if rdb_complete db \<and> rdb_type db \<noteq> Some ''MySQL'' \<and> rdb_type db \<noteq> Some ''PostgreSQL''
      then Inl (ValueError (''Unknown RDB type: '' @ [CHR 0x22] @ the (rdb_type db) @ [CHR 0x22]))
      else Inr (''java -Xmx'' @ str_nat (mt div 2) @ '' -Xms'' @ str_nat (mt div 2) @
                '' -jar rulegen.jar -m '' @ path_join2 ''/data/shared/'' m @
                (if rdb_complete db then
                   '' -u  '' @ the (rdb_username db) @ '' -p  '' @ the (rdb_password db) @
                   '' -dsn  '' @ [CHR 0x27] @
                   (if rdb_type db = Some ''MySQL'' then ''jdbc:mysql'' else ''jdbc:postgresql'') @
                   ''://'' @ the (rdb_host db) @ '':'' @ str_int (the (rdb_port db)) @ ''/'' @
                   the (rdb_name db) @
                   (if rdb_type db = Some ''MySQL''
                    then ''?allowPublicKeyRetrieval=true&useSSL=false'' else []) @ [CHR 0x27]
                 else [])))"
  by (auto simp: souffle_cmd1_def souffle_arguments1_def souffle_rdb_dsn_def rdb_complete_def
      max_heap_def os_path_join_def)

lemmas souffle_eval =
  souffle_cmd1_def souffle_arguments1_def souffle_rdb_dsn_def rdb_complete_def no_rdb_def
  max_heap_def os_path_join_def path_join2_def str_int_def str_nat.simps digit_char_def

lemmas config_eval =
  morphkgc_config_def morphkgc_serialization_def morphkgc_rdb_dsn_def config_setitem_def
  config_set_def before_set_def strip_keys.simps key_match_def rdb_complete_def no_rdb_def
  str_int_def str_nat.simps digit_char_def

lemma souffle_execute_mapping_snd:
  "snd (souffle_execute_mapping mt run w m out s db) = w"
  by (cases "souffle_cmd1 mt m db")
     (simp_all add: souffle_execute_mapping_def souffle_execute_with_timeout_NameError)

lemma morphkgc_config_unsupported:
  assumes "s \<noteq> ''ntriples''" and "s \<noteq> ''nquads''"
  shows "morphkgc_config m out s db mf =
           Inl (NotImplementedError (''Unsupported serialization:'' @ [CHR 0x22] @ s @ [CHR 0x22]))"
  using assms by (simp add: morphkgc_config_def morphkgc_serialization_def)

lemma config_set_Inl:
  "config_set c s k v = Inl e \<Longrightarrow> map_of c s \<noteq> None \<Longrightarrow>
   e = ValueError ''invalid interpolation syntax''"
  by (auto simp: config_set_def seq_def before_set_def split: if_splits sum.splits)

lemma morphkgc_config_unknown_type:
  assumes "rdb_complete db"
      and "rdb_type db \<noteq> Some ''MySQL''" and "rdb_type db \<noteq> Some ''PostgreSQL''"
      and "s = ''ntriples'' \<or> s = ''nquads''"
  shows "morphkgc_config m out s db mf \<in>
           {Inl (ValueError (''Unknown RDB type: '' @ [CHR 0x22] @ the (rdb_type db) @ [CHR 0x22])),
            Inl (ValueError ''invalid interpolation syntax'')}"
proof -
  obtain ser where ser: "morphkgc_serialization s = Inr ser" and
    c1: "config_setitem [] ''CONFIGURATION'' [(''output_format'', ser)] =
           Inr [(''CONFIGURATION'', [(''output_format'', ser)])]"
    using assms(4)
    by (auto simp: morphkgc_serialization_def config_setitem_def config_set_def before_set_fixed)
  have ty: "the (rdb_type db) \<noteq> ''MySQL''" "the (rdb_type db) \<noteq> ''PostgreSQL''"
    using assms(1-3) by (auto simp: rdb_complete_def)
  show ?thesis
    unfolding morphkgc_config_def ser seq_Inr c1
    using assms(1) ty
    by (auto simp: config_setitem_def seq_def morphkgc_rdb_dsn_def
        dest!: config_set_Inl config_set_Inr split: sum.splits if_splits)
qed

lemma rdb_partial_not_complete: "rdb_partial db \<Longrightarrow> \<not> rdb_complete db"
  by (simp add: rdb_partial_def)

lemma not_complete_no_rdb: "\<not> rdb_complete no_rdb"
  by (simp add: rdb_complete_def no_rdb_def)

lemma morphkgc_config_incomplete:
  "\<not> rdb_complete db \<Longrightarrow>
   morphkgc_config m out s db mf = morphkgc_config m out s no_rdb mf"
  by (simp add: morphkgc_config_def not_complete_no_rdb)

lemma morphkgc_config_example:
  "morphkgc_config ''map.rml.ttl'' ''out.nt'' ''ntriples'' no_rdb False =
     Inr [(''CONFIGURATION'', [(''output_format'', ''N-TRIPLES''),
                                (''output_file'', ''/data/shared/out.nt'')]),
          (''DataSource0'', [(''mappings'', ''/data/shared/map.rml.ttl'')])]"
  by (simp add: config_eval)

lemma morphkgc_config_example_multi:
  "morphkgc_config ''map.rml.ttl'' ''out.nq'' ''nquads'' no_rdb True =
     Inr [(''CONFIGURATION'', [(''output_format'', ''N-QUADS''),
                                (''output_dir'', ''/data/shared/'')]),
          (''DataSource0'', [(''mappings'', ''/data/shared/map.rml.ttl'')])]"
  by (simp add: config_eval)

lemma config_write_example:
  "config_write
     [(''CONFIGURATION'', [(''output_format'', ''N-TRIPLES''),
                            (''output_file'', ''/data/shared/out.nt'')]),
      (''DataSource0'', [(''mappings'', ''/data/shared/map.rml.ttl'')])] =
   ''[CONFIGURATION]\<newline>output_format = N-TRIPLES\<newline>output_file = /data/shared/out.nt\<newline>\<newline>[DataSource0]\<newline>mappings = /data/shared/map.rml.ttl\<newline>\<newline>''"
  by (simp add: config_write_def write_section_def replace_newline_def)

lemma morphkgc_execute_mapping_files:
  "files (snd (morphkgc_execute_mapping ad run w m out s db mf)) (morphkgc_config_path ad) =
     (case morphkgc_config m out s db mf of
        Inl e \<Rightarrow> files w (morphkgc_config_path ad)
      | Inr config \<Rightarrow> Some (config_write config))"
  by (cases "morphkgc_config m out s db mf")
     (simp_all add: morphkgc_execute_mapping_Inl morphkgc_execute_mapping_Inr morphkgc_execute_files)

text \<open>
  Values without a percent sign pass \<^verbatim>\<open>before_set\<close>, so for file names without one,
  a supported keyword and no complete descriptor, a configuration is always built.
\<close>

lemma set_strip_pp: "set (strip_pp s) \<subseteq> set s"
  by (induction s rule: strip_pp.induct) auto

lemma key_match_set: "key_match s = Some rest \<Longrightarrow> set rest \<subseteq> set s"
proof -
  assume a: "key_match s = Some rest"
  then obtain c1 c2 t where s: "s = c1 # c2 # t"
    by (auto simp: key_match_def split: list.splits)
  from a s obtain p q where r: "dropWhile (\<lambda>c. c \<noteq> CHR '')'') t = p # q # rest"
    by (auto simp: key_match_def Let_def split: list.splits if_splits)
  have "set (dropWhile (\<lambda>c. c \<noteq> CHR '')'') t) \<subseteq> set t"
    by (rule set_dropWhileD [THEN subsetI])
  with r s show ?thesis by auto
qed

lemma set_strip_keys: "set (strip_keys s) \<subseteq> set s"
proof (induction s rule: strip_keys.induct)
  case 1
  then show ?case by (simp add: strip_keys.simps)
next
  case (2 c cs)
  show ?case
  proof (cases "key_match (c # cs)")
    case None
    with 2 show ?thesis by (auto simp: strip_keys.simps)
  next
    case (Some rest)
    with 2 key_match_set [OF Some] show ?thesis by (auto simp: strip_keys.simps)
  qed
qed

lemma before_set_no_percent: "CHR ''%'' \<notin> set v \<Longrightarrow> before_set v = Inr v"
  using set_strip_keys [of "strip_pp v"] set_strip_pp [of v]
  by (auto simp: before_set_def)

lemma morphkgc_config_succeeds:
  assumes "s = ''ntriples'' \<or> s = ''nquads''"
      and "CHR ''%'' \<notin> set m" and "CHR ''%'' \<notin> set out" and "\<not> rdb_complete db"
  shows "morphkgc_config m out s db mf =
     Inr [(''CONFIGURATION'',
             [(''output_format'', if s = ''ntriples'' then ''N-TRIPLES'' else ''N-QUADS''),
              if mf then (''output_dir'', ''/data/shared/'')
              else (''output_file'', ''/data/shared/'' @ out)]),
          (''DataSource0'', [(''mappings'', ''/data/shared/'' @ m)])]"
proof -
  have m: "before_set (''/data/shared/'' @ m) = Inr (''/data/shared/'' @ m)"
    using assms(2) by (intro before_set_no_percent) simp
  have out: "before_set (''/data/shared/'' @ out) = Inr (''/data/shared/'' @ out)"
    using assms(3) by (intro before_set_no_percent) simp
  show ?thesis
    using assms(1,4)
    by (auto simp: morphkgc_config_def morphkgc_serialization_def config_setitem_def
        config_set_def before_set_fixed m out simp del: append.simps)
qed

text \<open>No path through the configuration raises \<^verbatim>\<open>TimeoutError\<close>.\<close>

lemma seq_eq_Inl: "seq m f = Inl e \<longleftrightarrow> m = Inl e \<or> (\<exists>a. m = Inr a \<and> f a = Inl e)"
  by (cases m) simp_all

lemma before_set_not_timeout: "before_set v \<noteq> Inl TimeoutError"
  by (simp add: before_set_def)

lemma config_set_not_timeout: "config_set c s k v \<noteq> Inl TimeoutError"
  by (simp add: config_set_def seq_eq_Inl before_set_not_timeout split: option.splits)

lemma config_setitem_not_timeout: "config_setitem c key [(k, v)] \<noteq> Inl TimeoutError"
  by (simp add: config_setitem_def seq_eq_Inl config_set_not_timeout)

lemma morphkgc_rdb_dsn_not_timeout: "morphkgc_rdb_dsn u p h po n t \<noteq> Inl TimeoutError"
  by (simp add: morphkgc_rdb_dsn_def seq_eq_Inl)

lemma morphkgc_serialization_not_timeout: "morphkgc_serialization s \<noteq> Inl TimeoutError"
  by (simp add: morphkgc_serialization_def)

lemma morphkgc_config_not_timeout: "morphkgc_config m out s db mf \<noteq> Inl TimeoutError"
  by (simp add: morphkgc_config_def seq_eq_Inl config_set_not_timeout
      config_setitem_not_timeout morphkgc_rdb_dsn_not_timeout
      morphkgc_serialization_not_timeout)

lemma morphkgc_execute_mapping_started:
  "started (snd (morphkgc_execute_mapping ad run w m out s db mf)) =
     (case morphkgc_config m out s db mf of
        Inl e \<Rightarrow> started w
      | Inr config \<Rightarrow> started w @ [morphkgc_cmd])"
  by (cases "morphkgc_config m out s db mf")
     (simp_all add: morphkgc_execute_mapping_Inl morphkgc_execute_mapping_Inr
        morphkgc_execute_started)

lemma morphkgc_execute_mapping_not_timeout:
  "fst (morphkgc_execute_mapping ad run w m out s db mf) \<noteq> Inl TimeoutError"
  using morphkgc_config_not_timeout [of m out s db mf]
  by (cases "morphkgc_config m out s db mf")
     (simp_all add: morphkgc_execute_mapping_Inl morphkgc_execute_mapping_Inr
        morphkgc_execute_result)

lemma souffle_execute_mapping_fst:
  "fst (souffle_execute_mapping mt run w m out s db) \<noteq> Inl TimeoutError"
  by (simp add: souffle_execute_mapping_def souffle_cmd1_cases
      souffle_execute_with_timeout_NameError)

text \<open>The lines of a written configuration.\<close>

lemma split_lines_not_Nil [simp]: "split_lines s \<noteq> []"
  by (induction s) (auto simp: split_lines.simps split: list.splits)

lemma split_lines_Cons:
  "split_lines (c # cs) =
     (if line_break c then [] # split_lines cs
      else (c # hd (split_lines cs)) # tl (split_lines cs))"
  by (cases "split_lines cs") (simp_all add: split_lines.simps)

lemma replace_newline_Cons:
  "replace_newline (c # cs) =
     (if c = CHR 0x0A then CHR 0x0A # CHR 0x09 # replace_newline cs else c # replace_newline cs)"
  by (simp add: replace_newline_def)

lemma split_lines_break:
  "line_break c \<Longrightarrow> split_lines (xs @ c # ys) = split_lines xs @ split_lines ys"
  by (induction xs) (auto simp: split_lines_Cons)

lemma split_lines_prefix:
  "\<not> list_ex line_break pre \<Longrightarrow>
   split_lines (pre @ s) = (pre @ hd (split_lines s)) # tl (split_lines s)"
  by (induction pre) (auto simp: split_lines_Cons)

lemma split_lines_replace_newline:
  "CHR 0x0D \<notin> set v \<Longrightarrow>
   split_lines (replace_newline v) =
     hd (split_lines v) # map ((#) (CHR 0x09)) (tl (split_lines v))"
proof (induction v)
  case Nil
  then show ?case by (simp add: replace_newline_def)
next
  case (Cons c cs)
  then have ih: "split_lines (replace_newline cs) =
      hd (split_lines cs) # map ((#) (CHR 0x09)) (tl (split_lines cs))"
    by simp
  from Cons.prems have ncr: "c \<noteq> CHR 0x0D" by auto
  show ?case
  proof (cases "c = CHR 0x0A")
    case True
    have "split_lines (c # cs) = [] # split_lines cs"
      using True by (simp add: split_lines_Cons line_break_def)
    moreover have "split_lines (replace_newline (c # cs)) =
        [] # (CHR 0x09 # hd (split_lines (replace_newline cs))) # tl (split_lines (replace_newline cs))"
      using True by (simp add: replace_newline_Cons split_lines_Cons line_break_def)
    ultimately show ?thesis
      by (cases "split_lines cs") (simp_all add: ih)
  next
    case False
    with ncr have nb: "\<not> line_break c" by (simp add: line_break_def)
    have "split_lines (c # cs) = (c # hd (split_lines cs)) # tl (split_lines cs)"
      using nb by (simp add: split_lines_Cons)
    moreover have "split_lines (replace_newline (c # cs)) =
        (c # hd (split_lines (replace_newline cs))) # tl (split_lines (replace_newline cs))"
      using False nb by (simp add: replace_newline_Cons split_lines_Cons)
    ultimately show ?thesis
      by (simp add: ih)
  qed
qed

lemma not_option_line_tab: "\<not> is_option_line (CHR 0x09 # l)"
  by (simp add: is_option_line_def)

lemma filter_option_tab: "filter is_option_line (map ((#) (CHR 0x09)) ls) = []"
  by (induction ls) (simp_all add: not_option_line_tab)

lemma is_option_line_append: "is_option_line k \<Longrightarrow> is_option_line (k @ l)"
  by (cases k) (simp_all add: is_option_line_def)

text \<open>The option lines that one item of a section contributes.\<close>

lemma option_lines_item:
  assumes "\<not> list_ex line_break k" and "is_option_line k" and "CHR 0x0D \<notin> set v"
  shows "filter is_option_line (split_lines (k @ '' = '' @ replace_newline v)) =
           [k @ '' = '' @ hd (split_lines v)]"
proof -
  have nb: "\<not> list_ex line_break (k @ '' = '')"
    using assms(1) by (simp add: line_break_def)
  have "split_lines (k @ '' = '' @ replace_newline v) =
      (k @ '' = '' @ hd (split_lines v)) # map ((#) (CHR 0x09)) (tl (split_lines v))"
    using split_lines_prefix [OF nb, of "replace_newline v"]
    by (simp add: split_lines_replace_newline [OF assms(3)])
  then show ?thesis
    using is_option_line_append [OF assms(2), of "'' = '' @ hd (split_lines v)"]
    by (simp add: filter_option_tab)
qed


lemma option_lines_items:
  "good_items items \<Longrightarrow>
   filter is_option_line
     (split_lines (concat (map (\<lambda>kv. fst kv @ '' = '' @ replace_newline (snd kv) @ [CHR 0x0A]) items) @
                   rest)) =
     map (\<lambda>kv. fst kv @ '' = '' @ hd (split_lines (snd kv))) items @
     filter is_option_line (split_lines rest)"
proof (induction items)
  case Nil
  then show ?case by simp
next
  case (Cons kv items)
  obtain k v where kv: "kv = (k, v)" by (cases kv)
  from Cons.prems kv have g: "\<not> list_ex line_break k" "is_option_line k" "CHR 0x0D \<notin> set v"
    and gi: "good_items items" by simp_all
  have br: "line_break (CHR 0x0A)" by (simp add: line_break_def)
  have "split_lines ((k @ '' = '' @ replace_newline v) @ CHR 0x0A #
          (concat (map (\<lambda>kv. fst kv @ '' = '' @ replace_newline (snd kv) @ [CHR 0x0A]) items) @ rest)) =
        split_lines (k @ '' = '' @ replace_newline v) @
        split_lines (concat (map (\<lambda>kv. fst kv @ '' = '' @ replace_newline (snd kv) @ [CHR 0x0A]) items) @ rest)"
    by (rule split_lines_break [OF br])
  then show ?case
    using Cons.IH [OF gi] option_lines_item [OF g]
    by (simp add: kv)
qed

lemma option_lines_section:
  assumes "\<not> list_ex line_break name" and "good_items items"
  shows "filter is_option_line (split_lines (write_section (name, items) @ rest)) =
           map (\<lambda>kv. fst kv @ '' = '' @ hd (split_lines (snd kv))) items @
           filter is_option_line (split_lines rest)"
proof -
  have br: "line_break (CHR 0x0A)" by (simp add: line_break_def)
  have nb: "\<not> list_ex line_break (''['' @ name @ '']'')"
    using assms(1) by (simp add: line_break_def)
  have hdr: "split_lines (''['' @ name @ '']'') = [''['' @ name @ '']'']"
    using split_lines_prefix [OF nb, of "[]"] by simp
  let ?body = "concat (map (\<lambda>kv. fst kv @ '' = '' @ replace_newline (snd kv) @ [CHR 0x0A]) items)"
  have "write_section (name, items) @ rest =
      (''['' @ name @ '']'') @ CHR 0x0A # (?body @ CHR 0x0A # rest)"
    by (simp add: write_section_def)
  then have "split_lines (write_section (name, items) @ rest) =
      split_lines (''['' @ name @ '']'') @ split_lines (?body @ CHR 0x0A # rest)"
    by (simp only: split_lines_break [OF br])
  moreover have "filter is_option_line (split_lines (?body @ CHR 0x0A # rest)) =
      map (\<lambda>kv. fst kv @ '' = '' @ hd (split_lines (snd kv))) items @
      filter is_option_line (split_lines (CHR 0x0A # rest))"
    by (rule option_lines_items [OF assms(2)])
  moreover have "filter is_option_line (split_lines (CHR 0x0A # rest)) =
      filter is_option_line (split_lines rest)"
    by (simp add: split_lines_Cons line_break_def is_option_line_def)
  ultimately show ?thesis
    using hdr by (simp add: is_option_line_def)
qed

lemma option_lines_config_write:
  assumes "\<not> list_ex line_break n1" and "good_items items1"
      and "\<not> list_ex line_break n2" and "good_items items2"
  shows "option_lines (config_write [(n1, items1), (n2, items2)]) =
           map (\<lambda>kv. fst kv @ '' = '' @ hd (split_lines (snd kv))) (items1 @ items2)"
proof -
  have "config_write [(n1, items1), (n2, items2)] =
      write_section (n1, items1) @ (write_section (n2, items2) @ [])"
    by (simp add: config_write_def)
  then show ?thesis
    using option_lines_section [OF assms(1,2), of "write_section (n2, items2)"]
      option_lines_section [OF assms(3,4), of "[]"]
    by (simp add: option_lines_def is_option_line_def)
qed

lemma split_lines_shared:
  "hd (split_lines (''/data/shared/'' @ x)) = ''/data/shared/'' @ hd (split_lines x)"
proof -
  have nb: "\<not> list_ex line_break ''/data/shared/''" by (simp add: line_break_def)
  from split_lines_prefix [OF nb, of x] show ?thesis by simp
qed

lemma good_key:
  "\<not> list_ex line_break ''output_format''" "is_option_line ''output_format''"
  "\<not> list_ex line_break ''output_file''" "is_option_line ''output_file''"
  "\<not> list_ex line_break ''output_dir''" "is_option_line ''output_dir''"
  "\<not> list_ex line_break ''mappings''" "is_option_line ''mappings''"
  "\<not> list_ex line_break ''db_url''" "is_option_line ''db_url''"
  "\<not> list_ex line_break ''CONFIGURATION''" "\<not> list_ex line_break ''DataSource0''"
  by (simp_all add: line_break_def is_option_line_def)

lemma split_lines_fixed:
  "hd (split_lines ''N-TRIPLES'') = ''N-TRIPLES''"
  "hd (split_lines ''N-QUADS'') = ''N-QUADS''"
  "hd (split_lines ''/data/shared/'') = ''/data/shared/''"
  by (simp_all add: split_lines.simps line_break_def)

section \<open>Timeouts\<close>

text \<open>
  In the Morph-KGC adapter a run that exceeds the ceiling of six hours ends as the
  result \<^verbatim>\<open>False\<close> and exactly one warning, which names the tool and the ceiling.
\<close>

lemma morphkgc_timeout_degrades:
  assumes "morphkgc_config m out s db mf = Inr config"
      and "run morphkgc_cmd = Overrun"
  shows "fst (morphkgc_execute_mapping ad run w m out s db mf) = Inr False"
    and "log (snd (morphkgc_execute_mapping ad run w m out s db mf)) =
           log w @ [(Warning, ''Timeout (21600s) reached for Morph-KGC'')]"
  using assms by (simp_all add: morphkgc_execute_mapping_Inr morphkgc_execute_Overrun)



section \<open>The Souffle adapter never starts its container\<close>

text \<open>
  C2, as amended. \<^verbatim>\<open>Souffle.execute_mapping\<close> raises \<^verbatim>\<open>NameError\<close> for the unbound
  name \<^verbatim>\<open>arguments\<close> on every input but one kind: a complete database descriptor of
  an unsupported type raises \<^verbatim>\<open>ValueError\<close> while the command line is built. In both
  cases the world is unchanged (no container is started, nothing is logged) and the
  result is never a boolean.
\<close>

theorem souffle_execute_mapping_never_runs:
  "souffle_execute_mapping mt run w m out s db =
     (if rdb_complete db \<and> rdb_type db \<noteq> Some ''MySQL'' \<and> rdb_type db \<noteq> Some ''PostgreSQL''
      then (Inl (ValueError (''Unknown RDB type: '' @ [CHR 0x22] @ the (rdb_type db) @ [CHR 0x22])), w)
      else (Inl (NameError (''name '' @ [CHR 0x27] @ ''arguments'' @ [CHR 0x27] @ '' is not defined'')), w))"
  by (simp add: souffle_execute_mapping_def souffle_cmd1_cases souffle_execute_with_timeout_NameError)

text \<open>The theorem at a supported and at an unsupported complete descriptor.\<close>

theorem souffle_execute_mapping_never_runs_witness:
  "souffle_execute_mapping 16 (\<lambda>cmd. Exited True) world0 ''map.rml.ttl'' ''out.nt'' ''ntriples'' rdb_mysql =
     (Inl (NameError (''name '' @ [CHR 0x27] @ ''arguments'' @ [CHR 0x27] @ '' is not defined'')), world0)
   \<and> souffle_execute_mapping 16 (\<lambda>cmd. Exited True) world0 ''map.rml.ttl'' ''out.nt'' ''ntriples'' rdb_oracle =
     (Inl (ValueError (''Unknown RDB type: '' @ [CHR 0x22] @ ''Oracle'' @ [CHR 0x22])), world0)"
  using souffle_execute_mapping_never_runs [of 16 "\<lambda>cmd. Exited True" world0 "''map.rml.ttl''" "''out.nt''" "''ntriples''" rdb_mysql]
    souffle_execute_mapping_never_runs [of 16 "\<lambda>cmd. Exited True" world0 "''map.rml.ttl''" "''out.nt''" "''ntriples''" rdb_oracle]
  by (simp add: rdb_mysql_def rdb_oracle_def rdb_complete_def)

text \<open>
  The claim as first stated (a \<^verbatim>\<open>NameError\<close> on every input) fails at a complete
  descriptor of type \<^verbatim>\<open>Oracle\<close>: the exception is a \<^verbatim>\<open>ValueError\<close>.
\<close>

theorem souffle_unknown_rdb_type_is_ValueError:
  "fst (souffle_execute_mapping 16 (\<lambda>cmd. Exited True) world0
          ''map.rml.ttl'' ''out.nt'' ''ntriples'' rdb_oracle) =
     Inl (ValueError (''Unknown RDB type: '' @ [CHR 0x22] @ ''Oracle'' @ [CHR 0x22]))"
  by (simp add: souffle_execute_mapping_def souffle_cmd1_cases rdb_oracle_def rdb_complete_def)

section \<open>The serialization keyword\<close>

text \<open>
  C3 (amended). In the Morph-KGC adapter every serialization keyword other than
  \<^verbatim>\<open>ntriples\<close> and \<^verbatim>\<open>nquads\<close> makes \<^verbatim>\<open>execute_mapping\<close> raise
  \<^verbatim>\<open>NotImplementedError\<close>, the adapter's unsupported-format error, to the caller, and
  the world is as before: no directory, no file, no log line, no container. The Souffle
  adapter does not read the keyword: its result is the same as for \<^verbatim>\<open>ntriples\<close>, and
  it writes no file and makes no directory either.
\<close>

theorem unsupported_serialization_rejected:
  assumes "serialization \<noteq> ''ntriples''" and "serialization \<noteq> ''nquads''"
  shows "morphkgc_execute_mapping ad run w m out serialization db mf =
           (Inl (NotImplementedError
                   (''Unsupported serialization:'' @ [CHR 0x22] @ serialization @ [CHR 0x22])), w)
         \<and> souffle_execute_mapping mt run w m out serialization db =
             souffle_execute_mapping mt run w m out ''ntriples'' db
         \<and> files (snd (souffle_execute_mapping mt run w m out serialization db)) = files w
         \<and> dirs (snd (souffle_execute_mapping mt run w m out serialization db)) = dirs w"
proof (intro conjI)
  show "morphkgc_execute_mapping ad run w m out serialization db mf =
          (Inl (NotImplementedError
                  (''Unsupported serialization:'' @ [CHR 0x22] @ serialization @ [CHR 0x22])), w)"
    using assms by (simp add: morphkgc_config_unsupported morphkgc_execute_mapping_Inl)
  show "souffle_execute_mapping mt run w m out serialization db =
          souffle_execute_mapping mt run w m out ''ntriples'' db"
    by (simp add: souffle_execute_mapping_def)
  show "files (snd (souffle_execute_mapping mt run w m out serialization db)) = files w"
    by (simp add: souffle_execute_mapping_snd)
  show "dirs (snd (souffle_execute_mapping mt run w m out serialization db)) = dirs w"
    by (simp add: souffle_execute_mapping_snd)
qed

text \<open>The theorem at the keyword \<^verbatim>\<open>turtle\<close>.\<close>

theorem unsupported_serialization_rejected_witness:
  "morphkgc_execute_mapping adapter0 (\<lambda>cmd. Exited True) world0
      ''map.rml.ttl'' ''out.ttl'' ''turtle'' no_rdb False =
     (Inl (NotImplementedError (''Unsupported serialization:'' @ [CHR 0x22] @ ''turtle'' @ [CHR 0x22])),
      world0)
   \<and> souffle_execute_mapping 16 (\<lambda>cmd. Exited True) world0
          ''map.rml.ttl'' ''out.ttl'' ''turtle'' no_rdb =
       souffle_execute_mapping 16 (\<lambda>cmd. Exited True) world0
          ''map.rml.ttl'' ''out.ttl'' ''ntriples'' no_rdb
   \<and> files (snd (souffle_execute_mapping 16 (\<lambda>cmd. Exited True) world0
                    ''map.rml.ttl'' ''out.ttl'' ''turtle'' no_rdb)) = files world0
   \<and> dirs (snd (souffle_execute_mapping 16 (\<lambda>cmd. Exited True) world0
                    ''map.rml.ttl'' ''out.ttl'' ''turtle'' no_rdb)) = dirs world0"
  by (rule unsupported_serialization_rejected) simp_all

text \<open>
  C3 as first stated covers both adapters and fails for Souffle: with the keyword
  \<^verbatim>\<open>turtle\<close> the exception is not an unsupported-format error, and the call behaves
  as it does for \<^verbatim>\<open>ntriples\<close>.
\<close>

theorem souffle_accepts_any_serialization:
  "fst (souffle_execute_mapping 16 (\<lambda>cmd. Exited True) world0
          ''map.rml.ttl'' ''out.ttl'' ''turtle'' no_rdb) =
     Inl (NameError (''name '' @ [CHR 0x27] @ ''arguments'' @ [CHR 0x27] @ '' is not defined''))
   \<and> souffle_execute_mapping 16 (\<lambda>cmd. Exited True) world0
          ''map.rml.ttl'' ''out.ttl'' ''turtle'' no_rdb =
       souffle_execute_mapping 16 (\<lambda>cmd. Exited True) world0
          ''map.rml.ttl'' ''out.ttl'' ''ntriples'' no_rdb"
  by (simp add: souffle_execute_mapping_def souffle_execute_with_timeout_NameError souffle_eval)

section \<open>The connection string\<close>




section \<open>Partial descriptors\<close>

text \<open>
  C5 (amended). A partial database descriptor (some but not all of the six fields) is
  not rejected: both adapters ignore it. \<^verbatim>\<open>MorphKGC.execute_mapping\<close> does what it does
  with no descriptor and the configuration it builds has no \<^verbatim>\<open>db_url\<close>;
  the Souffle argument list holds no credentials and no connection string, and
  \<^verbatim>\<open>Souffle.execute_mapping\<close> does what it does with no descriptor.
\<close>

theorem partial_descriptor_ignored:
  assumes "rdb_partial db"
  shows "morphkgc_execute_mapping ad run w m out s db mf =
           morphkgc_execute_mapping ad run w m out s no_rdb mf
         \<and> (\<forall>config. morphkgc_config m out s db mf = Inr config \<longrightarrow>
                config_get config ''DataSource0'' ''db_url'' = None)
         \<and> souffle_arguments1 db = Inr [[]]
         \<and> souffle_execute_mapping mt run w m out s db =
             souffle_execute_mapping mt run w m out s no_rdb"
proof (intro conjI allI impI)
  have nc: "\<not> rdb_complete db" using assms by (rule rdb_partial_not_complete)
  show "morphkgc_execute_mapping ad run w m out s db mf =
          morphkgc_execute_mapping ad run w m out s no_rdb mf"
    by (simp add: morphkgc_execute_mapping_def morphkgc_config_incomplete [OF nc])
  show "souffle_arguments1 db = Inr [[]]"
    using nc by (simp add: souffle_arguments1_def)
  show "souffle_execute_mapping mt run w m out s db =
          souffle_execute_mapping mt run w m out s no_rdb"
    using nc by (simp add: souffle_execute_mapping_def souffle_cmd1_def souffle_arguments1_def
        not_complete_no_rdb)
  fix config assume "morphkgc_config m out s db mf = Inr config"
  from morphkgc_config_Inr [OF this] nc
  show "config_get config ''DataSource0'' ''db_url'' = None"
    by (auto simp: config_get_def)
qed

text \<open>The theorem at the descriptor that gives the user name only.\<close>

theorem partial_descriptor_ignored_witness:
  "rdb_partial rdb_user_only
   \<and> morphkgc_execute_mapping adapter0 (\<lambda>cmd. Exited True) world0
         ''map.rml.ttl'' ''out.nt'' ''ntriples'' rdb_user_only False =
       morphkgc_execute_mapping adapter0 (\<lambda>cmd. Exited True) world0
         ''map.rml.ttl'' ''out.nt'' ''ntriples'' no_rdb False
   \<and> souffle_arguments1 rdb_user_only = Inr [[]]"
proof -
  have p: "rdb_partial rdb_user_only"
    by (simp add: rdb_partial_def rdb_complete_def rdb_user_only_def no_rdb_def)
  from partial_descriptor_ignored [OF p, of adapter0 "\<lambda>cmd. Exited True" world0
      "''map.rml.ttl''" "''out.nt''" "''ntriples''" False 16] p
  show ?thesis by blast
qed

text \<open>
  C5 as first stated fails: with only the user name given, the Morph-KGC adapter runs the
  mapping and returns \<^verbatim>\<open>True\<close>, with a configuration that has no database entry.
\<close>

theorem morphkgc_partial_descriptor_accepted:
  "fst (morphkgc_execute_mapping adapter0 (\<lambda>cmd. Exited True) world0
          ''map.rml.ttl'' ''out.nt'' ''ntriples'' rdb_user_only False) = Inr True
   \<and> morphkgc_config ''map.rml.ttl'' ''out.nt'' ''ntriples'' rdb_user_only False =
       Inr [(''CONFIGURATION'', [(''output_format'', ''N-TRIPLES''),
                                  (''output_file'', ''/data/shared/out.nt'')]),
            (''DataSource0'', [(''mappings'', ''/data/shared/map.rml.ttl'')])]"
proof -
  have cfg: "morphkgc_config ''map.rml.ttl'' ''out.nt'' ''ntriples'' rdb_user_only False =
       Inr [(''CONFIGURATION'', [(''output_format'', ''N-TRIPLES''),
                                  (''output_file'', ''/data/shared/out.nt'')]),
            (''DataSource0'', [(''mappings'', ''/data/shared/map.rml.ttl'')])]"
    by (simp add: config_eval rdb_user_only_def)
  show ?thesis
    by (simp add: cfg morphkgc_execute_mapping_Inr morphkgc_execute_result)
qed

section \<open>The generated configuration\<close>

text \<open>
  C6. For the mapping file \<^verbatim>\<open>map.rml.ttl\<close>, the output file \<^verbatim>\<open>out.nt\<close>, the keyword
  \<^verbatim>\<open>ntriples\<close> and no database descriptor, \<^verbatim>\<open>MorphKGC.execute_mapping\<close> builds a
  configuration with \<^verbatim>\<open>output_format = N-TRIPLES\<close>,
  \<^verbatim>\<open>output_file = /data/shared/out.nt\<close> and \<^verbatim>\<open>mappings = /data/shared/map.rml.ttl\<close>,
  writes it to the configuration file, hands the fixed entry command to the container,
  and returns \<^verbatim>\<open>True\<close> exactly when the container exits successfully. This holds for
  every adapter, container and world.
\<close>

theorem morphkgc_end_to_end:
  "morphkgc_config ''map.rml.ttl'' ''out.nt'' ''ntriples'' no_rdb False =
     Inr [(''CONFIGURATION'', [(''output_format'', ''N-TRIPLES''),
                                (''output_file'', ''/data/shared/out.nt'')]),
          (''DataSource0'', [(''mappings'', ''/data/shared/map.rml.ttl'')])]
   \<and> files (snd (morphkgc_execute_mapping ad run w ''map.rml.ttl'' ''out.nt'' ''ntriples'' no_rdb False))
         (morphkgc_config_path ad) =
       Some ''[CONFIGURATION]\<newline>output_format = N-TRIPLES\<newline>output_file = /data/shared/out.nt\<newline>\<newline>[DataSource0]\<newline>mappings = /data/shared/map.rml.ttl\<newline>\<newline>''
   \<and> started (snd (morphkgc_execute_mapping ad run w ''map.rml.ttl'' ''out.nt'' ''ntriples'' no_rdb False)) =
       started w @ [PStr ''python3 -m morph_kgc /data/config_morphkgc.ini'']
   \<and> (fst (morphkgc_execute_mapping ad run w ''map.rml.ttl'' ''out.nt'' ''ntriples'' no_rdb False) = Inr True) =
       (run (PStr ''python3 -m morph_kgc /data/config_morphkgc.ini'') = Exited True)"
  by (simp add: morphkgc_config_example config_write_example morphkgc_execute_mapping_Inr
      morphkgc_execute_files morphkgc_execute_started morphkgc_execute_result morphkgc_cmd_def)

text \<open>
  C7 (amended). Whenever \<^verbatim>\<open>MorphKGC.execute_mapping\<close> builds a configuration, the
  file it writes is that configuration, which with \<^verbatim>\<open>multiple_files\<close> false has
  \<^verbatim>\<open>output_file = /data/shared/<output file>\<close> and no \<^verbatim>\<open>output_dir\<close> in any section,
  and with \<^verbatim>\<open>multiple_files\<close> true has \<^verbatim>\<open>output_dir = /data/shared/\<close> and no
  \<^verbatim>\<open>output_file\<close> in any section. When the mapping file name, the output file name
  and the connection string hold no carriage return, the option lines of the written
  file are exactly \<^verbatim>\<open>output_format\<close>, then \<^verbatim>\<open>output_file\<close> or \<^verbatim>\<open>output_dir\<close>
  accordingly, then \<^verbatim>\<open>mappings\<close>, then \<^verbatim>\<open>db_url\<close> where the configuration has
  one; each shows its value up to the first line feed, the rest following on
  continuation lines.
\<close>

theorem morphkgc_output_target:
  assumes "morphkgc_config m out s db mf = Inr config"
  shows "files (snd (morphkgc_execute_mapping ad run w m out s db mf)) (morphkgc_config_path ad) =
           Some (config_write config)
         \<and> (if mf
             then config_get config ''CONFIGURATION'' ''output_dir'' = Some ''/data/shared/''
                  \<and> (\<forall>section. config_get config section ''output_file'' = None)
             else config_get config ''CONFIGURATION'' ''output_file'' = Some (''/data/shared/'' @ out)
                  \<and> (\<forall>section. config_get config section ''output_dir'' = None))
         \<and> (CHR 0x0D \<notin> set m \<and> CHR 0x0D \<notin> set out
              \<and> (\<forall>dsn. config_get config ''DataSource0'' ''db_url'' = Some dsn \<longrightarrow>
                         CHR 0x0D \<notin> set dsn) \<longrightarrow>
             option_lines (config_write config) =
               [''output_format = '' @ (if s = ''ntriples'' then ''N-TRIPLES'' else ''N-QUADS''),
                if mf then ''output_dir = /data/shared/''
                else ''output_file = /data/shared/'' @ hd (split_lines out),
                ''mappings = /data/shared/'' @ hd (split_lines m)] @
               (case config_get config ''DataSource0'' ''db_url'' of
                  None \<Rightarrow> []
                | Some dsn \<Rightarrow> [''db_url = '' @ hd (split_lines dsn)]))"
proof -
  from morphkgc_config_Inr [OF assms] obtain ser dbitems where
    ser: "morphkgc_serialization s = Inr ser" and
    cfg: "config = [(''CONFIGURATION'',
                       [(''output_format'', ser),
                        if mf then (''output_dir'', ''/data/shared/'')
                        else (''output_file'', ''/data/shared/'' @ out)]),
                    (''DataSource0'', (''mappings'', ''/data/shared/'' @ m) # dbitems)]" and
    db: "dbitems = [] \<or> (\<exists>dsn. dbitems = [(''db_url'', dsn)])"
    by (auto split: sum.splits if_splits)
  from morphkgc_serialization_Inr [OF ser]
  have ser': "ser = (if s = ''ntriples'' then ''N-TRIPLES'' else ''N-QUADS'')"
    and sercr: "CHR 0x0D \<notin> set ser"
    by auto
  have written: "files (snd (morphkgc_execute_mapping ad run w m out s db mf)) (morphkgc_config_path ad) =
      Some (config_write config)"
    by (simp add: morphkgc_execute_mapping_Inr [OF assms] morphkgc_execute_files)
  have shape: "if mf
     then config_get config ''CONFIGURATION'' ''output_dir'' = Some ''/data/shared/''
          \<and> (\<forall>section. config_get config section ''output_file'' = None)
     else config_get config ''CONFIGURATION'' ''output_file'' = Some (''/data/shared/'' @ out)
          \<and> (\<forall>section. config_get config section ''output_dir'' = None)"
    using db by (auto simp: cfg config_get_def)
  have lines: "option_lines (config_write config) =
       [''output_format = '' @ (if s = ''ntriples'' then ''N-TRIPLES'' else ''N-QUADS''),
        if mf then ''output_dir = /data/shared/''
        else ''output_file = /data/shared/'' @ hd (split_lines out),
        ''mappings = /data/shared/'' @ hd (split_lines m)] @
       (case config_get config ''DataSource0'' ''db_url'' of
          None \<Rightarrow> []
        | Some dsn \<Rightarrow> [''db_url = '' @ hd (split_lines dsn)])"
    if cr: "CHR 0x0D \<notin> set m" "CHR 0x0D \<notin> set out"
      "\<forall>dsn. config_get config ''DataSource0'' ''db_url'' = Some dsn \<longrightarrow> CHR 0x0D \<notin> set dsn"
  proof -
    let ?items1 = "[(''output_format'', ser),
                    if mf then (''output_dir'', ''/data/shared/'')
                    else (''output_file'', ''/data/shared/'' @ out)]"
    let ?items2 = "(''mappings'', ''/data/shared/'' @ m) # dbitems"
    have g1: "good_items ?items1"
      using cr(2) sercr by (cases mf) (simp_all add: line_break_def is_option_line_def)
    have dbcr: "good_items dbitems"
      using db cr(3) by (auto simp: cfg config_get_def line_break_def is_option_line_def)
    have g2: "good_items ?items2"
      using cr(1) dbcr by (simp add: line_break_def is_option_line_def)
    have "option_lines (config_write [(''CONFIGURATION'', ?items1), (''DataSource0'', ?items2)]) =
        map (\<lambda>kv. fst kv @ '' = '' @ hd (split_lines (snd kv))) (?items1 @ ?items2)"
      by (rule option_lines_config_write [OF good_key(11) g1 good_key(12) g2])
    moreover have sereq: "(if s = ''ntriples'' then ''N-TRIPLES'' else ''N-QUADS'') = ser"
      by (simp add: ser')
    moreover have hser: "hd (split_lines ser) = ser"
      using split_lines_fixed by (simp add: ser')
    ultimately show ?thesis
      unfolding sereq using db
      by (auto simp: cfg config_get_def split_lines_shared [simplified]
          split_lines_fixed [simplified])
  qed
  from written shape lines show ?thesis by blast
qed

text \<open>The theorem at a single-file and at a multiple-files request.\<close>

theorem morphkgc_output_target_witness:
  "morphkgc_config ''map.rml.ttl'' ''out.nt'' ''ntriples'' no_rdb False =
     Inr [(''CONFIGURATION'', [(''output_format'', ''N-TRIPLES''),
                                (''output_file'', ''/data/shared/out.nt'')]),
          (''DataSource0'', [(''mappings'', ''/data/shared/map.rml.ttl'')])]
   \<and> morphkgc_config ''map.rml.ttl'' ''out.nq'' ''nquads'' no_rdb True =
     Inr [(''CONFIGURATION'', [(''output_format'', ''N-QUADS''),
                                (''output_dir'', ''/data/shared/'')]),
          (''DataSource0'', [(''mappings'', ''/data/shared/map.rml.ttl'')])]
   \<and> option_lines
        (config_write
           [(''CONFIGURATION'', [(''output_format'', ''N-TRIPLES''),
                                  (''output_file'', ''/data/shared/out.nt'')]),
            (''DataSource0'', [(''mappings'', ''/data/shared/map.rml.ttl'')])]) =
       [''output_format = N-TRIPLES'', ''output_file = /data/shared/out.nt'',
        ''mappings = /data/shared/map.rml.ttl'']
   \<and> option_lines
        (config_write
           [(''CONFIGURATION'', [(''output_format'', ''N-QUADS''),
                                  (''output_dir'', ''/data/shared/'')]),
            (''DataSource0'', [(''mappings'', ''/data/shared/map.rml.ttl'')])]) =
       [''output_format = N-QUADS'', ''output_dir = /data/shared/'',
        ''mappings = /data/shared/map.rml.ttl'']
   \<and> config_get
        [(''CONFIGURATION'', [(''output_format'', ''N-TRIPLES''),
                               (''output_file'', ''/data/shared/out.nt'')]),
         (''DataSource0'', [(''mappings'', ''/data/shared/map.rml.ttl'')])]
        ''CONFIGURATION'' ''output_dir'' = None"
proof -
  have h: "hd (split_lines ''out.nt'') = ''out.nt''"
    "hd (split_lines ''map.rml.ttl'') = ''map.rml.ttl''"
    by (simp_all add: split_lines.simps line_break_def)
  from morphkgc_output_target [OF morphkgc_config_example]
    morphkgc_output_target [OF morphkgc_config_example_multi]
  show ?thesis
    by (simp add: morphkgc_config_example morphkgc_config_example_multi config_get_def h)
qed

text \<open>
  C7 as first stated holds for every input that passes validation and fails at an output
  file name with a carriage return: with \<^verbatim>\<open>multiple_files\<close> false the written file has
  an \<^verbatim>\<open>output_dir\<close> line next to the \<^verbatim>\<open>output_file\<close> line.
\<close>

theorem morphkgc_carriage_return_adds_output_dir:
  "morphkgc_config ''map.rml.ttl'' output_cr ''ntriples'' no_rdb False =
     Inr [(''CONFIGURATION'', [(''output_format'', ''N-TRIPLES''),
                                (''output_file'', ''/data/shared/'' @ output_cr)]),
          (''DataSource0'', [(''mappings'', ''/data/shared/map.rml.ttl'')])]
   \<and> files (snd (morphkgc_execute_mapping adapter0 (\<lambda>cmd. Exited True) world0
                    ''map.rml.ttl'' output_cr ''ntriples'' no_rdb False))
         (morphkgc_config_path adapter0) =
       Some (''[CONFIGURATION]\<newline>output_format = N-TRIPLES\<newline>output_file = /data/shared/x'' @
             [CHR 0x0D] @
             ''output_dir = /tmp\<newline>\<newline>[DataSource0]\<newline>mappings = /data/shared/map.rml.ttl\<newline>\<newline>'')
   \<and> option_lines
        (''[CONFIGURATION]\<newline>output_format = N-TRIPLES\<newline>output_file = /data/shared/x'' @
         [CHR 0x0D] @
         ''output_dir = /tmp\<newline>\<newline>[DataSource0]\<newline>mappings = /data/shared/map.rml.ttl\<newline>\<newline>'') =
       [''output_format = N-TRIPLES'', ''output_file = /data/shared/x'', ''output_dir = /tmp'',
        ''mappings = /data/shared/map.rml.ttl'']"
proof -
  have cfg: "morphkgc_config ''map.rml.ttl'' output_cr ''ntriples'' no_rdb False =
     Inr [(''CONFIGURATION'', [(''output_format'', ''N-TRIPLES''),
                                (''output_file'', ''/data/shared/'' @ output_cr)]),
          (''DataSource0'', [(''mappings'', ''/data/shared/map.rml.ttl'')])]"
    by (simp add: config_eval output_cr_def)
  have wr: "config_write
      [(''CONFIGURATION'', [(''output_format'', ''N-TRIPLES''),
                             (''output_file'', ''/data/shared/'' @ output_cr)]),
       (''DataSource0'', [(''mappings'', ''/data/shared/map.rml.ttl'')])] =
      ''[CONFIGURATION]\<newline>output_format = N-TRIPLES\<newline>output_file = /data/shared/x'' @
      [CHR 0x0D] @
      ''output_dir = /tmp\<newline>\<newline>[DataSource0]\<newline>mappings = /data/shared/map.rml.ttl\<newline>\<newline>''"
    by (simp add: config_write_def write_section_def replace_newline_def output_cr_def)
  have written: "files (snd (morphkgc_execute_mapping adapter0 (\<lambda>cmd. Exited True) world0
                    ''map.rml.ttl'' output_cr ''ntriples'' no_rdb False))
         (morphkgc_config_path adapter0) =
       Some (''[CONFIGURATION]\<newline>output_format = N-TRIPLES\<newline>output_file = /data/shared/x'' @
             [CHR 0x0D] @
             ''output_dir = /tmp\<newline>\<newline>[DataSource0]\<newline>mappings = /data/shared/map.rml.ttl\<newline>\<newline>'')"
    by (simp only: morphkgc_execute_mapping_files cfg sum.case wr)
  have ol: "option_lines
        (''[CONFIGURATION]\<newline>output_format = N-TRIPLES\<newline>output_file = /data/shared/x'' @
         [CHR 0x0D] @
         ''output_dir = /tmp\<newline>\<newline>[DataSource0]\<newline>mappings = /data/shared/map.rml.ttl\<newline>\<newline>'') =
       [''output_format = N-TRIPLES'', ''output_file = /data/shared/x'', ''output_dir = /tmp'',
        ''mappings = /data/shared/map.rml.ttl'']"
    by (simp add: option_lines_def split_lines.simps line_break_def is_option_line_def)
  from cfg written ol show ?thesis by (intro conjI)
qed

text \<open>
  C8. Whenever \<^verbatim>\<open>MorphKGC.execute_mapping\<close> builds a configuration, the keyword was
  \<^verbatim>\<open>ntriples\<close> or \<^verbatim>\<open>nquads\<close> and the configuration has \<^verbatim>\<open>output_format\<close>
  \<^verbatim>\<open>N-TRIPLES\<close> or \<^verbatim>\<open>N-QUADS\<close> accordingly; the file written is this configuration,
  and its first two lines are the section header and the \<^verbatim>\<open>output_format\<close> line.
\<close>

theorem morphkgc_output_format:
  assumes "morphkgc_config m out s db mf = Inr config"
  shows "(s = ''ntriples'' \<or> s = ''nquads'')
         \<and> config_get config ''CONFIGURATION'' ''output_format'' =
             Some (if s = ''ntriples'' then ''N-TRIPLES'' else ''N-QUADS'')
         \<and> files (snd (morphkgc_execute_mapping ad run w m out s db mf)) (morphkgc_config_path ad) =
             Some (config_write config)
         \<and> prefix (''[CONFIGURATION]'' @ [CHR 0x0A] @ ''output_format = '' @
                    (if s = ''ntriples'' then ''N-TRIPLES'' else ''N-QUADS'') @ [CHR 0x0A])
                   (config_write config)"
proof -
  from morphkgc_config_Inr [OF assms] obtain ser rest1 rest2 where
    ser: "morphkgc_serialization s = Inr ser" and
    cfg: "config = [(''CONFIGURATION'', (''output_format'', ser) # rest1), (''DataSource0'', rest2)]"
    by blast
  from morphkgc_serialization_Inr [OF ser]
  have s: "s = ''ntriples'' \<or> s = ''nquads''"
    and ser': "ser = (if s = ''ntriples'' then ''N-TRIPLES'' else ''N-QUADS'')"
    by auto
  have get: "config_get config ''CONFIGURATION'' ''output_format'' = Some ser"
    by (simp add: cfg config_get_def)
  have written: "files (snd (morphkgc_execute_mapping ad run w m out s db mf)) (morphkgc_config_path ad) =
      Some (config_write config)"
    by (simp add: morphkgc_execute_mapping_Inr [OF assms] morphkgc_execute_files)
  have nl: "replace_newline ser = ser"
    using s by (auto simp: ser' replace_newline_def)
  have "config_write config =
      (''[CONFIGURATION]'' @ [CHR 0x0A] @ ''output_format = '' @ ser @ [CHR 0x0A]) @
      (concat (map (\<lambda>kv. fst kv @ '' = '' @ replace_newline (snd kv) @ [CHR 0x0A]) rest1) @
       [CHR 0x0A] @ write_section (''DataSource0'', rest2))"
    by (simp add: cfg config_write_def write_section_def nl)
  then have pre: "prefix (''[CONFIGURATION]'' @ [CHR 0x0A] @ ''output_format = '' @ ser @ [CHR 0x0A])
      (config_write config)"
    by (rule prefixI)
  show ?thesis
    using s get written pre unfolding ser' by (intro conjI)
qed

text \<open>The theorem at the keyword \<^verbatim>\<open>ntriples\<close> and at the keyword \<^verbatim>\<open>nquads\<close>.\<close>

theorem morphkgc_output_format_witness:
  "morphkgc_config ''map.rml.ttl'' ''out.nt'' ''ntriples'' no_rdb False =
     Inr [(''CONFIGURATION'', [(''output_format'', ''N-TRIPLES''),
                                (''output_file'', ''/data/shared/out.nt'')]),
          (''DataSource0'', [(''mappings'', ''/data/shared/map.rml.ttl'')])]
   \<and> morphkgc_config ''map.rml.ttl'' ''out.nq'' ''nquads'' no_rdb True =
     Inr [(''CONFIGURATION'', [(''output_format'', ''N-QUADS''),
                                (''output_dir'', ''/data/shared/'')]),
          (''DataSource0'', [(''mappings'', ''/data/shared/map.rml.ttl'')])]
   \<and> config_get
     [(''CONFIGURATION'', [(''output_format'', ''N-TRIPLES''),
                            (''output_file'', ''/data/shared/out.nt'')]),
      (''DataSource0'', [(''mappings'', ''/data/shared/map.rml.ttl'')])]
     ''CONFIGURATION'' ''output_format'' = Some ''N-TRIPLES''
   \<and> config_get
     [(''CONFIGURATION'', [(''output_format'', ''N-QUADS''),
                            (''output_dir'', ''/data/shared/'')]),
      (''DataSource0'', [(''mappings'', ''/data/shared/map.rml.ttl'')])]
     ''CONFIGURATION'' ''output_format'' = Some ''N-QUADS''"
proof -
  from morphkgc_output_format [OF morphkgc_config_example]
    morphkgc_output_format [OF morphkgc_config_example_multi]
  show ?thesis
    by (simp add: morphkgc_config_example morphkgc_config_example_multi)
qed

text \<open>
  C9. Calling \<^verbatim>\<open>MorphKGC.execute_mapping\<close> a second time with the same inputs, in
  the world the first call left and whatever the container does in either call, leaves
  the configuration file with the same content; for a request that passes validation
  that content is the rendering of the configuration, which depends on the inputs only.
\<close>

theorem morphkgc_config_idempotent:
  "files (snd (morphkgc_execute_mapping ad run2
                 (snd (morphkgc_execute_mapping ad run1 w m out s db mf)) m out s db mf))
         (morphkgc_config_path ad) =
     files (snd (morphkgc_execute_mapping ad run1 w m out s db mf)) (morphkgc_config_path ad)
   \<and> (\<forall>config. morphkgc_config m out s db mf = Inr config \<longrightarrow>
          files (snd (morphkgc_execute_mapping ad run1 w m out s db mf)) (morphkgc_config_path ad) =
            Some (config_write config))"
  by (cases "morphkgc_config m out s db mf") (simp_all add: morphkgc_execute_mapping_files)

text \<open>
  The theorem at the example request, the container succeeding in the first call and
  overrunning in the second.
\<close>

theorem morphkgc_config_idempotent_witness:
  "files (snd (morphkgc_execute_mapping adapter0 (\<lambda>cmd. Overrun)
                 (snd (morphkgc_execute_mapping adapter0 (\<lambda>cmd. Exited True) world0
                         ''map.rml.ttl'' ''out.nt'' ''ntriples'' no_rdb False))
                 ''map.rml.ttl'' ''out.nt'' ''ntriples'' no_rdb False))
         (morphkgc_config_path adapter0) =
     Some ''[CONFIGURATION]\<newline>output_format = N-TRIPLES\<newline>output_file = /data/shared/out.nt\<newline>\<newline>[DataSource0]\<newline>mappings = /data/shared/map.rml.ttl\<newline>\<newline>''"
  using morphkgc_config_idempotent [of adapter0 "\<lambda>cmd. Overrun" "\<lambda>cmd. Exited True" world0
      "''map.rml.ttl''" "''out.nt''" "''ntriples''" no_rdb False]
  by (simp add: morphkgc_config_example config_write_example)

section \<open>The Souffle command line\<close>

text \<open>
  C10 (amended). For a host with less than \<open>2 ^ 53\<close> bytes of memory and a mapping file
  name that does not begin with \<^verbatim>\<open>/\<close>, every command line the Souffle adapter builds is
  \<^verbatim>\<open>java -Xmx<h> -Xms<h> -jar rulegen.jar -m /data/shared/<mapping file>\<close> with \<open>h\<close>
  half of the total memory, followed, when the descriptor is complete, by the
  credentials as \<^verbatim>\<open>-u\<close> and \<^verbatim>\<open>-p\<close> and the quoted JDBC string as \<^verbatim>\<open>-dsn\<close>; a
  complete descriptor for which a command line is built has type \<^verbatim>\<open>MySQL\<close> or
  \<^verbatim>\<open>PostgreSQL\<close>.
\<close>

theorem souffle_command_line:
  assumes "mem_total < 2 ^ 53"
      and "\<not> prefix ''/'' mapping_file"
      and "souffle_cmd1 mem_total mapping_file db = Inr cmd1"
  shows "cmd1 =
     ''java -Xmx'' @ str_nat (mem_total div 2) @ '' -Xms'' @ str_nat (mem_total div 2) @
     '' -jar rulegen.jar -m /data/shared/'' @ mapping_file @
     (if rdb_complete db then
        '' -u  '' @ the (rdb_username db) @ '' -p  '' @ the (rdb_password db) @
        '' -dsn  '' @ [CHR 0x27] @
        (if rdb_type db = Some ''MySQL'' then ''jdbc:mysql'' else ''jdbc:postgresql'') @
        ''://'' @ the (rdb_host db) @ '':'' @ str_int (the (rdb_port db)) @ ''/'' @
        the (rdb_name db) @
        (if rdb_type db = Some ''MySQL'' then ''?allowPublicKeyRetrieval=true&useSSL=false''
         else []) @ [CHR 0x27]
      else [])
     \<and> (rdb_complete db \<longrightarrow> rdb_type db = Some ''MySQL'' \<or> rdb_type db = Some ''PostgreSQL'')"
proof -
  have rel: "path_join2 ''/data/shared/'' mapping_file = ''/data/shared/'' @ mapping_file"
    using assms(2) by (cases mapping_file) (simp_all add: path_join2_def)
  from assms(3) show ?thesis
    unfolding souffle_cmd1_cases rel
    by (simp split: if_splits)
qed

text \<open>The theorem at a host with 16 GiB of memory and a MySQL descriptor.\<close>

theorem souffle_command_line_witness:
  "(17179869184::nat) < 2 ^ 53
   \<and> \<not> prefix ''/'' ''map.rml.ttl''
   \<and> souffle_cmd1 17179869184 ''map.rml.ttl'' rdb_mysql =
       Inr (''java -Xmx8589934592 -Xms8589934592 -jar rulegen.jar -m /data/shared/map.rml.ttl'' @
            '' -u  u -p  p -dsn  '' @ [CHR 0x27] @
            ''jdbc:mysql://h:3306/db?allowPublicKeyRetrieval=true&useSSL=false'' @ [CHR 0x27])"
proof -
  have mem: "(17179869184::nat) < 2 ^ 53" by simp
  have rel: "\<not> prefix ''/'' ''map.rml.ttl''" by simp
  have cmd: "souffle_cmd1 17179869184 ''map.rml.ttl'' rdb_mysql =
     Inr (''java -Xmx8589934592 -Xms8589934592 -jar rulegen.jar -m /data/shared/map.rml.ttl'' @
          '' -u  u -p  p -dsn  '' @ [CHR 0x27] @
          ''jdbc:mysql://h:3306/db?allowPublicKeyRetrieval=true&useSSL=false'' @ [CHR 0x27])"
    by (simp add: souffle_eval rdb_mysql_def)
  from souffle_command_line [OF mem rel cmd] mem rel cmd show ?thesis by simp
qed

text \<open>
  C10 as first stated holds for every input and fails at a mapping file name that is an
  absolute path: \<^verbatim>\<open>os.path.join\<close> drops \<^verbatim>\<open>/data/shared/\<close>.
\<close>

theorem souffle_absolute_mapping_file:
  "souffle_cmd1 16 ''/map.rml.ttl'' no_rdb = Inr ''java -Xmx8 -Xms8 -jar rulegen.jar -m /map.rml.ttl''
   \<and> souffle_cmd1 16 ''/map.rml.ttl'' no_rdb \<noteq>
       Inr (''java -Xmx8 -Xms8 -jar rulegen.jar -m /data/shared/'' @ ''/map.rml.ttl'')"
  by (simp add: souffle_eval)

end
